theory Spec2Isabelle
  imports Main
begin

section \<open>Values received from the server-list API\<close>

text \<open>
  The bot never builds server entries itself: every item it shows is whatever
  \<^verbatim>\<open>response.json()\<close> decoded. A decoded value is \<open>None\<close>, a bool, a number, a
  string, a list or a dict. A dict is an association list with its keys in insertion
  order. Numbers are Python ints; the code never computes with a decoded number, it
  only tests its truth value and formats it.
\<close>

datatype json =
    JNull
  | JBool bool
  | JNum int
  | JStr string
  | JArr "json list"
  | JObj "(string \<times> json) list"

type_synonym dict = "(string \<times> json) list"

datatype py_error =
    TypeError
  | AttributeError
  | ValueError
  | RequestException
  | JSONDecodeError

text \<open>\<^verbatim>\<open>d.get(k, default)\<close> and \<^verbatim>\<open>d[k] = v\<close> on a dict.\<close>

definition dict_get :: "dict \<Rightarrow> string \<Rightarrow> json \<Rightarrow> json" where
  "dict_get d k dflt = (case map_of d k of None \<Rightarrow> dflt | Some v \<Rightarrow> v)"

definition dict_set :: "string \<Rightarrow> json \<Rightarrow> dict \<Rightarrow> dict" where
  "dict_set k v d =
     (if k \<in> fst ` set d then map (\<lambda>(k', v'). if k' = k then (k', v) else (k', v')) d
      else d @ [(k, v)])"

text \<open>The truth value Python gives a decoded value in \<^verbatim>\<open>if x:\<close> and \<^verbatim>\<open>x or y\<close>.\<close>

fun truthy :: "json \<Rightarrow> bool" where
  "truthy JNull = False"
| "truthy (JBool b) = b"
| "truthy (JNum n) = (n \<noteq> 0)"
| "truthy (JStr s) = (s \<noteq> [])"
| "truthy (JArr xs) = (xs \<noteq> [])"
| "truthy (JObj d) = (d \<noteq> [])"

text \<open>
  \<^verbatim>\<open>str.lower()\<close>. On a string of ASCII characters the letters A to Z go to a to z
  and every other character stays. What it does to a string with a character outside
  ASCII is decided by the Unicode tables of the Python library (a character can change
  with its position, or become two); that part is the parameter \<open>ulower\<close>.
\<close>

definition lower_char :: "char \<Rightarrow> char" where
  "lower_char c =
     (case map_of (zip ''ABCDEFGHIJKLMNOPQRSTUVWXYZ'' ''abcdefghijklmnopqrstuvwxyz'') c of
        None \<Rightarrow> c
      | Some l \<Rightarrow> l)"

definition is_ascii :: "char \<Rightarrow> bool" where
  "is_ascii c = (\<not> digit7 c)"

definition lower :: "(string \<Rightarrow> string) \<Rightarrow> string \<Rightarrow> string" where
  "lower ulower s = (if list_all is_ascii s then map lower_char s else ulower s)"

text \<open>\<^verbatim>\<open>s.replace("Z", "+00:00")\<close>.\<close>

definition replace_Z :: "string \<Rightarrow> string" where
  "replace_Z s = concat (map (\<lambda>c. if c = CHR ''Z'' then ''+00:00'' else [c]) s)"

text \<open>
  \<^verbatim>\<open>xs[start:end]\<close> on a list, with Python's treatment of negative and
  out-of-range bounds, and on any decoded value: a string slices into its characters,
  every other value that is not a list raises.
\<close>

definition slice_bound :: "nat \<Rightarrow> int \<Rightarrow> nat" where
  "slice_bound n i = (if i < 0 then nat (max (i + int n) 0) else min (nat i) n)"

definition list_slice :: "'a list \<Rightarrow> int \<Rightarrow> int \<Rightarrow> 'a list" where
  "list_slice xs start end =
     (let s = slice_bound (length xs) start; e = slice_bound (length xs) end
      in take (e - s) (drop s xs))"

definition py_slice :: "json \<Rightarrow> int \<Rightarrow> int \<Rightarrow> py_error + json list" where
  "py_slice v start end =
     (case v of
        JArr xs \<Rightarrow> Inr (list_slice xs start end)
      | JStr s \<Rightarrow> Inr (map (\<lambda>c. JStr [c]) (list_slice s start end))
      | _ \<Rightarrow> Inl TypeError)"

text \<open>
  An f-string is kept as its pieces: the literal runs, and the values of its
  replacement fields, which Python formats with \<^verbatim>\<open>str\<close>. \<^verbatim>\<open>str(v)\<close> is the
  one-piece string \<open>[Fmt v]\<close>.
\<close>

datatype piece = Lit string | Fmt json

type_synonym fstring = "piece list"

section \<open>The paged fetch\<close>

text \<open>
  What \<^verbatim>\<open>requests.get\<close> does with a query is the network's choice: it raises, or
  it returns a response with a status code and a body that \<^verbatim>\<open>response.json()\<close>
  decodes (\<open>Some\<close>) or rejects (\<open>None\<close>).
\<close>

datatype http = Failed | Response int "json option"

type_synonym net = "dict \<Rightarrow> http"

text \<open>
  \<^verbatim>\<open>fetch_servers(page=p, **params)\<close>. The call itself raises when \<open>params\<close>
  already has a key \<open>page\<close>. Otherwise \<open>params\<close> is unpacked into a fresh dict of
  the callee, so that \<^verbatim>\<open>params["page"] = page\<close> does not reach the caller's dict.
  The result is the list of queries sent, and the value returned or the error raised.
\<close>

definition fetch_servers :: "net \<Rightarrow> int \<Rightarrow> dict \<Rightarrow> dict list \<times> (py_error + json)" where
  "fetch_servers net p kwargs =
     (if ''page'' \<in> fst ` set kwargs then ([], Inl TypeError)
      else
        let q = dict_set ''page'' (JNum p) kwargs in
        case net q of
          Failed \<Rightarrow> ([q], Inl RequestException)
        | Response status_code body \<Rightarrow>
            if status_code \<noteq> 200 then ([q], Inr (JArr []))
            else
              (case body of
                 None \<Rightarrow> ([q], Inl JSONDecodeError)
               | Some (JObj d) \<Rightarrow> ([q], Inr (dict_get d ''servers'' (JArr [])))
               | Some _ \<Rightarrow> ([q], Inl AttributeError)))"

section \<open>Authentication mode\<close>

record auth_info =
  icon :: string
  label :: string

definition auth_map :: "string \<Rightarrow> auth_info option" where
  "auth_map = map_of
     [(''online'', \<lparr>icon = '':white_check_mark:'', label = ''Online Mode''\<rparr>),
      (''offline'', \<lparr>icon = '':x:'', label = ''Offline (Cracked)''\<rparr>),
      (''whitelist'', \<lparr>icon = '':lock:'', label = ''Whitelisted''\<rparr>)]"

definition auth_default :: auth_info where
  "auth_default = \<lparr>icon = '':question:'', label = ''Unknown''\<rparr>"

text \<open>
  \<^verbatim>\<open>map_authmode\<close>: \<^verbatim>\<open>(authmode_str or "")\<close> keeps a truthy argument and replaces
  a falsy one by the empty string; \<^verbatim>\<open>.lower()\<close> exists on strings only. The field
  \<open>label\<close> is the entry \<^verbatim>\<open>"text"\<close> of the source's dict.
\<close>

definition map_authmode :: "(string \<Rightarrow> string) \<Rightarrow> json \<Rightarrow> py_error + auth_info" where
  "map_authmode ulower authmode_str =
     (case (if truthy authmode_str then authmode_str else JStr '''') of
        JStr s \<Rightarrow> Inr (case auth_map (lower ulower s) of None \<Rightarrow> auth_default | Some a \<Rightarrow> a)
      | _ \<Rightarrow> Inl AttributeError)"

section \<open>Embeds and the fields of one server entry\<close>

text \<open>
  An embed is its title and its fields in the order of the \<^verbatim>\<open>add_field\<close> calls:
  name, value, inline. The colour is the same constant everywhere and is left out.
\<close>

record embed =
  title :: fstring
  embed_fields :: "(fstring \<times> fstring \<times> bool) list"

text \<open>
  \<^verbatim>\<open>v.get\<close> is an attribute of dicts only and \<^verbatim>\<open>v.lower\<close> of strings only;
  on any other decoded value the attribute lookup raises.
\<close>

definition as_dict :: "json \<Rightarrow> py_error + dict" where
  "as_dict v = (case v of JObj d \<Rightarrow> Inr d | _ \<Rightarrow> Inl AttributeError)"

definition str_lower :: "(string \<Rightarrow> string) \<Rightarrow> json \<Rightarrow> py_error + string" where
  "str_lower ulower v = (case v of JStr s \<Rightarrow> Inr (lower ulower s) | _ \<Rightarrow> Inl AttributeError)"

text \<open>
  The text \<^verbatim>\<open>:flag_{geo.get('country', 'Unknown').lower()}: {geo.get('countryName', 'Unknown')}\<close>
  that both callbacks build from the dict \<open>geo\<close>.
\<close>

definition country_text :: "(string \<Rightarrow> string) \<Rightarrow> dict \<Rightarrow> py_error + fstring" where
  "country_text ulower g =
     (case str_lower ulower (dict_get g ''country'' (JStr ''Unknown'')) of
        Inl e \<Rightarrow> Inl e
      | Inr c \<Rightarrow>
          Inr [Lit '':flag_'', Fmt (JStr c), Lit '': '',
               Fmt (dict_get g ''countryName'' (JStr ''Unknown''))])"

section \<open>Selecting one server: \<^verbatim>\<open>ServerButton.callback\<close>\<close>

text \<open>
  The parameter \<open>iso_timestamp\<close> stands for the library calls
  \<^verbatim>\<open>int(datetime.fromisoformat(s).replace(tzinfo=timezone.utc).timestamp())\<close>:
  \<open>None\<close> when \<^verbatim>\<open>fromisoformat\<close> rejects \<open>s\<close>.
\<close>

definition last_seen_display :: "(string \<Rightarrow> int option) \<Rightarrow> json \<Rightarrow> py_error + fstring" where
  "last_seen_display iso_timestamp last_seen_raw =
     (if truthy last_seen_raw then
        (case last_seen_raw of
           JStr s \<Rightarrow>
             (case iso_timestamp (replace_Z s) of
                None \<Rightarrow> Inl ValueError
              | Some last_seen_ts \<Rightarrow> Inr [Lit ''<t:'', Fmt (JNum last_seen_ts), Lit '':R>''])
         | _ \<Rightarrow> Inl AttributeError)
      else Inr [Lit ''Unknown''])"

definition ServerButton_callback ::
  "(string \<Rightarrow> string) \<Rightarrow> (string \<Rightarrow> int option) \<Rightarrow> json \<Rightarrow> py_error + embed" where
  "ServerButton_callback ulower iso_timestamp server =
     (case as_dict server of
        Inl e \<Rightarrow> Inl e
      | Inr d \<Rightarrow>
     (case last_seen_display iso_timestamp (dict_get d ''lastSeen'' JNull) of
        Inl e \<Rightarrow> Inl e
      | Inr last_seen \<Rightarrow>
     (let ip = dict_get d ''serverip'' JNull;
          geo = dict_get d ''geolocation'' (JObj [])
      in
     (case as_dict geo of
        Inl e \<Rightarrow> Inl e
      | Inr g \<Rightarrow>
     (case country_text ulower g of
        Inl e \<Rightarrow> Inl e
      | Inr country \<Rightarrow>
     (case map_authmode ulower (dict_get d ''authmode'' JNull) of
        Inl e \<Rightarrow> Inl e
      | Inr auth \<Rightarrow>
          Inr \<lparr>title = [Lit ''Server Information''],
               embed_fields =
                 [([Lit ''IP''], [Fmt ip], False),
                  ([Lit ''Version''], [Fmt (dict_get d ''version'' (JStr ''Unknown''))], True),
                  ([Lit ''Country''], country, True),
                  ([Lit ''City''], [Fmt (dict_get g ''city'' (JStr ''Unknown''))], True),
                  ([Lit ''Last Seen''], last_seen, True),
                  ([Lit ''Authentication''],
                   [Fmt (JStr (icon auth)), Lit '' '', Fmt (JStr (label auth))], True),
                  ([Lit ''Online Players''], [Fmt (dict_get d ''onlinePlayers'' (JNum 0))], True),
                  ([Lit ''Max Players''], [Fmt (dict_get d ''maxPlayers'' (JNum 0))], True)]\<rparr>))))))"

section \<open>The browsing session: \<^verbatim>\<open>ServerInfoButtons\<close>\<close>

datatype button =
    ServerButton fstring json
  | PageButton string int

record view =
  servers :: json
  page :: int
  params :: dict
  start_index :: int
  children :: "button list"

text \<open>
  \<^verbatim>\<open>update_buttons\<close> clears the buttons first, so a slice that raises leaves the view
  without any.
\<close>

definition update_buttons :: "view \<Rightarrow> view \<times> py_error option" where
  "update_buttons v =
     (let start = start_index v mod 20;
          end = start + 5
      in case py_slice (servers v) start end of
           Inl e \<Rightarrow> (v\<lparr>children := []\<rparr>, Some e)
         | Inr window \<Rightarrow>
             (v\<lparr>children :=
                  map (\<lambda>(index, server).
                         ServerButton [Lit ''Server '', Fmt (JNum (start_index v + int index + 1))]
                           server)
                      (enumerate 0 window)
                  @ [PageButton ''Previous'' (- 1), PageButton ''Next'' 1]\<rparr>,
              None))"

text \<open>\<^verbatim>\<open>ServerInfoButtons(servers, page, params)\<close>; \<open>None\<close> is the default \<open>params\<close>.\<close>

definition ServerInfoButtons :: "json \<Rightarrow> int \<Rightarrow> dict option \<Rightarrow> py_error + view" where
  "ServerInfoButtons servers0 page0 params0 =
     (case update_buttons
             \<lparr>servers = servers0, page = page0,
              params = (case params0 of None \<Rightarrow> [] | Some d \<Rightarrow> d),
              start_index = 0, children = []\<rparr> of
        (v, None) \<Rightarrow> Inr v
      | (v, Some e) \<Rightarrow> Inl e)"

section \<open>Navigation: \<^verbatim>\<open>PageButton.callback\<close>\<close>

text \<open>The two navigation buttons of a view, and the \<open>direction\<close> each one carries.\<close>

datatype nav = Backward | Forward

fun direction :: "nav \<Rightarrow> int" where
  "direction Backward = - 1"
| "direction Forward = 1"

text \<open>
  The first part of the callback moves the window and, across a page boundary,
  fetches the neighbouring page. The page number and the offset are assigned before
  the fetch, so they keep their new values when the fetch raises.
\<close>

definition refetch :: "net \<Rightarrow> view \<Rightarrow> view \<times> dict list \<times> py_error option" where
  "refetch net v =
     (case fetch_servers net (page v) (params v) of
        (sent, Inl e) \<Rightarrow> (v, sent, Some e)
      | (sent, Inr s) \<Rightarrow> (v\<lparr>servers := s\<rparr>, sent, None))"

definition turn_page :: "net \<Rightarrow> int \<Rightarrow> view \<Rightarrow> view \<times> dict list \<times> py_error option" where
  "turn_page net dir v =
     (let v1 = v\<lparr>start_index := start_index v + dir * 5\<rparr> in
      if start_index v1 \<ge> 20 then
        refetch net (v1\<lparr>page := page v1 + 1, start_index := 0\<rparr>)
      else if start_index v1 < 0 then
        (if page v1 = 1 then (v1\<lparr>start_index := 0\<rparr>, [], None)
         else refetch net (v1\<lparr>page := page v1 - 1, start_index := 15\<rparr>))
      else (v1, [], None))"

text \<open>One field of the result list, for the entry numbered \<open>i\<close>.\<close>

definition result_field ::
  "(string \<Rightarrow> string) \<Rightarrow> int \<Rightarrow> json \<Rightarrow> py_error + (fstring \<times> fstring \<times> bool)" where
  "result_field ulower i server =
     (case as_dict server of
        Inl e \<Rightarrow> Inl e
      | Inr d \<Rightarrow>
     (let ip = dict_get d ''serverip'' JNull;
          geo = dict_get d ''geolocation'' (JObj [])
      in
     (case map_authmode ulower (dict_get d ''authmode'' JNull) of
        Inl e \<Rightarrow> Inl e
      | Inr auth \<Rightarrow>
     (case as_dict geo of
        Inl e \<Rightarrow> Inl e
      | Inr g \<Rightarrow>
     (case country_text ulower g of
        Inl e \<Rightarrow> Inl e
      | Inr country \<Rightarrow>
          Inr ([Lit ''Server '', Fmt (JNum i)],
               [Lit ''**IP:** '', Fmt ip,
                Lit ''\<newline>**Version:** '', Fmt (dict_get d ''version'' (JStr ''Unknown'')),
                Lit ''\<newline>**Location:** '']
               @ country
               @ [Lit '', '', Fmt (dict_get g ''city'' (JStr ''Unknown'')),
                  Lit ''\<newline>**Authentication:** '',
                  Fmt (JStr (icon auth)), Lit '' '', Fmt (JStr (label auth))],
               False))))))"

text \<open>The loop over \<^verbatim>\<open>enumerate(window, start=i)\<close>; the first entry that raises ends it.\<close>

fun result_fields ::
  "(string \<Rightarrow> string) \<Rightarrow> int \<Rightarrow> json list \<Rightarrow> py_error + (fstring \<times> fstring \<times> bool) list" where
  "result_fields ulower i [] = Inr []"
| "result_fields ulower i (server # rest) =
     (case result_field ulower i server of
        Inl e \<Rightarrow> Inl e
      | Inr f \<Rightarrow> (case result_fields ulower (i + 1) rest of Inl e \<Rightarrow> Inl e | Inr fs \<Rightarrow> Inr (f # fs)))"

text \<open>The second part of the callback builds the embed of the visible window.\<close>

definition page_embed :: "(string \<Rightarrow> string) \<Rightarrow> view \<Rightarrow> py_error + embed" where
  "page_embed ulower v =
     (let start = start_index v;
          end = start + 5
      in case py_slice (servers v) start end of
           Inl e \<Rightarrow> Inl e
         | Inr window \<Rightarrow>
             (case result_fields ulower (start + 1) window of
                Inl e \<Rightarrow> Inl e
              | Inr fs \<Rightarrow>
                  Inr \<lparr>title = [Lit ''Server Search Results - Page '', Fmt (JNum (page v))],
                       embed_fields = fs\<rparr>))"

text \<open>
  The callback: the view it leaves behind, the queries it sent, and the embed it
  shows or the error it raises.
\<close>

definition PageButton_callback ::
  "(string \<Rightarrow> string) \<Rightarrow> net \<Rightarrow> int \<Rightarrow> view \<Rightarrow> view \<times> dict list \<times> (py_error + embed)" where
  "PageButton_callback ulower net dir v =
     (case turn_page net dir v of
        (v1, sent, Some e) \<Rightarrow> (v1, sent, Inl e)
      | (v1, sent, None) \<Rightarrow>
          (case update_buttons v1 of
             (v2, Some e) \<Rightarrow> (v2, sent, Inl e)
           | (v2, None) \<Rightarrow> (v2, sent, page_embed ulower v2)))"

text \<open>
  A session's events are handled one at a time, each against the network as it is at
  that moment. An event whose callback raises leaves the view as the callback left it,
  and the next event goes on from there. \<open>run\<close> gives the view after the last event
  and all queries sent.
\<close>

fun run :: "(string \<Rightarrow> string) \<Rightarrow> view \<Rightarrow> (nav \<times> net) list \<Rightarrow> view \<times> dict list" where
  "run ulower v [] = (v, [])"
| "run ulower v ((d, net) # rest) =
     (case PageButton_callback ulower net (direction d) v of
        (v1, sent, out) \<Rightarrow> (case run ulower v1 rest of (v2, sent2) \<Rightarrow> (v2, sent @ sent2)))"

section \<open>Fixtures of the examples\<close>

text \<open>
  Three networks that answer every query the same way: with status 200 and the given
  list of servers, with an exception of \<^verbatim>\<open>requests\<close>, and with status 200 and a
  body that is not JSON.
\<close>

definition net_serving :: "json list \<Rightarrow> net" where
  "net_serving xs q = Response 200 (Some (JObj [(''servers'', JArr xs)]))"

definition net_down :: net where
  "net_down q = Failed"

definition net_garbled :: net where
  "net_garbled q = Response 200 None"

text \<open>
  The timestamp parser on the strings the examples give it: the epoch, which
  \<^verbatim>\<open>fromisoformat\<close> accepts, and no other.
\<close>

definition iso_epoch :: "string \<Rightarrow> int option" where
  "iso_epoch s = (if s = ''1970-01-01T00:00:00+00:00'' then Some 0 else None)"

text \<open>
  The lowering of the examples. Their strings are ASCII, so that the part of
  \<^verbatim>\<open>str.lower()\<close> it stands for is never asked.
\<close>

definition lower_ascii :: "string \<Rightarrow> string" where
  "lower_ascii s = map lower_char s"

text \<open>The value of the first field of an embed with a given name.\<close>

definition field_value :: "embed \<Rightarrow> string \<Rightarrow> fstring option" where
  "field_value e name = map_of (map (\<lambda>(n, v, inline). (n, v)) (embed_fields e)) [Lit name]"

section \<open>What one step changes and what it keeps\<close>

lemma dict_set_fresh: "k \<notin> fst ` set d \<Longrightarrow> dict_set k x d = d @ [(k, x)]"
  by (simp add: dict_set_def)

lemma dict_get_absent: "k \<notin> fst ` set d \<Longrightarrow> dict_get d k dflt = dflt"
  by (simp add: dict_get_def map_of_eq_None_iff[THEN iffD2])

lemma lower_Nil: "lower ulower [] = []"
  by (simp add: lower_def)

lemma slice_past_end: "length xs \<le> 15 \<Longrightarrow> list_slice xs 15 20 = []"
  by (simp add: list_slice_def slice_bound_def Let_def)

text \<open>A fetch sends no query when the call itself fails, and one query otherwise.\<close>

lemma fetch_servers_sent:
  "fetch_servers net p ps = (sent, r) \<Longrightarrow>
     (sent = [] \<and> r = Inl TypeError \<and> ''page'' \<in> fst ` set ps)
   \<or> (sent = [ps @ [(''page'', JNum p)]] \<and> ''page'' \<notin> fst ` set ps)"
  by (auto simp: fetch_servers_def dict_set_fresh Let_def
           split: if_splits http.splits option.splits json.splits)

lemma fetch_servers_returns:
  "fetch_servers net p ps = (sent, Inr s) \<Longrightarrow> sent = [ps @ [(''page'', JNum p)]]"
  by (auto dest: fetch_servers_sent)

lemma refetch_frame:
  "refetch net v = (v', sent, err) \<Longrightarrow>
     page v' = page v \<and> start_index v' = start_index v \<and> params v' = params v
     \<and> children v' = children v
     \<and> (sent = [] \<or> sent = [params v @ [(''page'', JNum (page v))]])"
  by (auto simp: refetch_def split: prod.splits sum.splits dest: fetch_servers_sent)

lemma update_buttons_frame:
  "update_buttons v = (v', err) \<Longrightarrow>
     page v' = page v \<and> start_index v' = start_index v \<and> params v' = params v
     \<and> servers v' = servers v"
  by (auto simp: update_buttons_def Let_def split: sum.splits)

lemma ServerInfoButtons_start:
  "ServerInfoButtons s p ps = Inr v \<Longrightarrow>
     start_index v = 0 \<and> page v = p \<and> servers v = s \<and> update_buttons v = (v, None)"
  by (auto simp: ServerInfoButtons_def update_buttons_def Let_def
           split: sum.splits prod.splits option.splits)

text \<open>Page, offset, filters and loaded page are decided by the first part of the callback.\<close>

lemma callback_frame:
  "PageButton_callback ulower net dir v = (v', sent, out) \<Longrightarrow>
     \<exists>v1 err. turn_page net dir v = (v1, sent, err)
       \<and> page v' = page v1 \<and> start_index v' = start_index v1 \<and> params v' = params v1
       \<and> servers v' = servers v1"
  by (auto simp: PageButton_callback_def split: prod.splits option.splits
           dest: update_buttons_frame)

lemma turn_page_start_index:
  "turn_page net (direction d) v = (v', sent, err) \<Longrightarrow> start_index v \<in> {0, 5, 10, 15} \<Longrightarrow>
     start_index v' \<in> {0, 5, 10, 15}"
  by (cases d) (auto simp: turn_page_def Let_def split: if_splits dest!: refetch_frame)

lemma turn_page_params:
  "turn_page net dir v = (v', sent, err) \<Longrightarrow>
     params v' = params v \<and> (sent = [] \<or> sent = [params v @ [(''page'', JNum (page v'))]])"
  by (auto simp: turn_page_def Let_def split: if_splits dest!: refetch_frame)

lemma callback_start_index:
  "start_index v \<in> {0, 5, 10, 15} \<Longrightarrow>
     start_index (fst (PageButton_callback ulower net (direction d) v)) \<in> {0, 5, 10, 15}"
  by (cases "PageButton_callback ulower net (direction d) v")
     (auto dest!: callback_frame turn_page_start_index)

lemma callback_params:
  "PageButton_callback ulower net dir v = (v', sent, out) \<Longrightarrow>
     params v' = params v \<and> (sent = [] \<or> sent = [params v @ [(''page'', JNum (page v'))]])"
  by (auto dest!: callback_frame turn_page_params)

text \<open>The four kinds of step: inside the page, across its end, across its start, at the very start.\<close>

lemma callback_forward_inside:
  "PageButton_callback ulower net 1 v = (v', sent, out) \<Longrightarrow> 0 \<le> start_index v \<Longrightarrow> start_index v < 15 \<Longrightarrow>
     start_index v' = start_index v + 5 \<and> page v' = page v \<and> servers v' = servers v \<and> sent = []"
  by (auto simp: turn_page_def Let_def dest!: callback_frame)

lemma callback_backward_inside:
  "PageButton_callback ulower net (- 1) v = (v', sent, out) \<Longrightarrow> 5 \<le> start_index v \<Longrightarrow> start_index v < 25 \<Longrightarrow>
     start_index v' = start_index v - 5 \<and> page v' = page v \<and> servers v' = servers v \<and> sent = []"
  by (auto simp: turn_page_def Let_def dest!: callback_frame)

lemma callback_forward_cross:
  "PageButton_callback ulower net 1 v = (v', sent, out) \<Longrightarrow> 15 \<le> start_index v \<Longrightarrow>
     start_index v' = 0 \<and> page v' = page v + 1
     \<and> (sent = [] \<or> sent = [params v @ [(''page'', JNum (page v + 1))]])"
  by (auto simp: turn_page_def Let_def dest!: callback_frame refetch_frame)

lemma callback_backward_cross:
  "PageButton_callback ulower net (- 1) v = (v', sent, out) \<Longrightarrow> start_index v < 5 \<Longrightarrow>
     - 15 \<le> start_index v \<Longrightarrow> page v \<noteq> 1 \<Longrightarrow>
     start_index v' = 15 \<and> page v' = page v - 1
     \<and> (sent = [] \<or> sent = [params v @ [(''page'', JNum (page v - 1))]])"
  by (auto simp: turn_page_def Let_def dest!: callback_frame refetch_frame)

lemma callback_forward_cross_fetched:
  assumes "PageButton_callback ulower net 1 v = (v', sent, out)" and "15 \<le> start_index v"
    and "fetch_servers net (page v + 1) (params v) = (sent0, Inr s)"
  shows "servers v' = s \<and> sent = [params v @ [(''page'', JNum (page v + 1))]]"
  using assms fetch_servers_returns[OF assms(3)]
  by (auto simp: turn_page_def Let_def refetch_def dest!: callback_frame)

lemma callback_backward_cross_fetched:
  assumes "PageButton_callback ulower net (- 1) v = (v', sent, out)"
    and "start_index v < 5" and "- 15 \<le> start_index v" and "page v \<noteq> 1"
    and "fetch_servers net (page v - 1) (params v) = (sent0, Inr s)"
  shows "servers v' = s \<and> sent = [params v @ [(''page'', JNum (page v - 1))]]"
  using assms fetch_servers_returns[OF assms(5)]
  by (auto simp: turn_page_def Let_def refetch_def dest!: callback_frame)

lemma callback_backward_start:
  assumes "PageButton_callback ulower net (- 1) v = (v', sent, out)"
    and "start_index v < 5" and "page v = 1"
  shows "start_index v' = 0 \<and> page v' = 1 \<and> servers v' = servers v
       \<and> params v' = params v \<and> sent = []"
  using assms
  by (auto simp: turn_page_def Let_def dest!: callback_frame)

text \<open>Sequences of events, by induction on the sequence with the view generalised.\<close>

lemma run_start_index:
  "start_index v \<in> {0, 5, 10, 15} \<Longrightarrow> start_index (fst (run ulower v evs)) \<in> {0, 5, 10, 15}"
proof (induction evs arbitrary: v)
  case Nil
  then show ?case by simp
next
  case (Cons ev evs)
  obtain d net where ev: "ev = (d, net)" by (cases ev)
  obtain v1 sent out where cb: "PageButton_callback ulower net (direction d) v = (v1, sent, out)"
    by (cases "PageButton_callback ulower net (direction d) v")
  from callback_start_index[OF Cons.prems, where ulower = ulower and net = net and d = d] cb
  have "start_index v1 \<in> {0, 5, 10, 15}" by simp
  from Cons.IH[OF this] show ?case
    by (auto simp: ev cb split: prod.splits)
qed

lemma run_params:
  "run ulower v evs = (v', sent) \<Longrightarrow>
     params v' = params v \<and> (\<forall>q \<in> set sent. \<exists>p. q = params v @ [(''page'', JNum p)])"
proof (induction evs arbitrary: v v' sent)
  case Nil
  then show ?case by simp
next
  case (Cons ev evs)
  obtain d net where ev: "ev = (d, net)" by (cases ev)
  obtain v1 s1 out where cb: "PageButton_callback ulower net (direction d) v = (v1, s1, out)"
    by (cases "PageButton_callback ulower net (direction d) v")
  obtain v2 s2 where r: "run ulower v1 evs = (v2, s2)" by (cases "run ulower v1 evs")
  from Cons.prems have eq: "v' = v2" "sent = s1 @ s2" by (simp_all add: ev cb r)
  from callback_params[OF cb] Cons.IH[OF r] show ?case
    unfolding eq by auto
qed

text \<open>The parts of \<^verbatim>\<open>ServerButton.callback\<close> on well-typed fields.\<close>

lemma last_seen_display_ok:
  assumes "\<not> truthy x \<or> (\<exists>s ts. x = JStr s \<and> iso_timestamp (replace_Z s) = Some ts)"
  shows "\<exists>t. last_seen_display iso_timestamp x = Inr t \<and> (\<not> truthy x \<longrightarrow> t = [Lit ''Unknown''])"
  using assms by (auto simp: last_seen_display_def)

lemma map_authmode_ok:
  assumes "\<not> truthy x \<or> (\<exists>s. x = JStr s)"
  shows "\<exists>a. map_authmode ulower x = Inr a \<and> (\<not> truthy x \<longrightarrow> a = auth_default)"
  using assms by (auto simp: map_authmode_def auth_map_def lower_Nil)

lemma country_text_ok:
  assumes "dict_get g ''country'' (JStr ''Unknown'') = JStr c"
  shows "country_text ulower g = Inr [Lit '':flag_'', Fmt (JStr (lower ulower c)), Lit '': '',
                               Fmt (dict_get g ''countryName'' (JStr ''Unknown''))]"
  using assms by (simp add: country_text_def str_lower_def)

lemma lower_Unknown: "lower ulower ''Unknown'' = ''unknown''"
  by (simp add: lower_def lower_char_def is_ascii_def)

section \<open>Forward across the end of the page\<close>

text \<open>
  C1, as the code has it. From offset 15, when the Forward navigation fetches page
  \<open>page + 1\<close> and the fetch returns the empty list, the navigation is not rejected:
  the view is left on page \<open>page + 1\<close> at offset 0 with the empty list loaded, one
  query was sent, and the embed shown is that page without any field.
\<close>

theorem forward_empty_refetch_turns_page:
  assumes "start_index v = 15"
    and "fetch_servers net (page v + 1) (params v) = (sent0, Inr (JArr []))"
    and "PageButton_callback ulower net (direction Forward) v = (v', sent, out)"
  shows "page v' = page v + 1 \<and> start_index v' = 0 \<and> servers v' = JArr []
       \<and> sent = [params v @ [(''page'', JNum (page v + 1))]]
       \<and> out = Inr \<lparr>title = [Lit ''Server Search Results - Page '', Fmt (JNum (page v + 1))],
                     embed_fields = []\<rparr>"
proof -
  from assms(3) have cb: "PageButton_callback ulower net 1 v = (v', sent, out)" by simp
  from assms(1) have le: "15 \<le> start_index v" by simp
  note st = callback_forward_cross[OF cb le] callback_forward_cross_fetched[OF cb le assms(2)]
  have "out = Inr \<lparr>title = [Lit ''Server Search Results - Page '', Fmt (JNum (page v + 1))],
                     embed_fields = []\<rparr>"
    using cb assms(1,2)
    by (simp add: PageButton_callback_def turn_page_def refetch_def update_buttons_def
        page_embed_def py_slice_def list_slice_def slice_bound_def Let_def enumerate_eq_zip)
  with st show ?thesis by simp
qed

theorem forward_empty_refetch_turns_page_witness:
  "start_index \<lparr>servers = JArr [JObj []], page = 1, params = [], start_index = 15, children = []\<rparr> = 15
   \<and> fetch_servers (net_serving []) 2 [] = ([[(''page'', JNum 2)]], Inr (JArr []))
   \<and> page (fst (PageButton_callback lower_ascii (net_serving []) (direction Forward)
        \<lparr>servers = JArr [JObj []], page = 1, params = [], start_index = 15, children = []\<rparr>)) = 2
   \<and> start_index (fst (PageButton_callback lower_ascii (net_serving []) (direction Forward)
        \<lparr>servers = JArr [JObj []], page = 1, params = [], start_index = 15, children = []\<rparr>)) = 0"
proof -
  have f: "fetch_servers (net_serving []) 2 [] = ([[(''page'', JNum 2)]], Inr (JArr []))"
    by (simp add: fetch_servers_def net_serving_def dict_set_def dict_get_def)
  obtain v' sent out where cb: "PageButton_callback lower_ascii (net_serving []) (direction Forward)
        \<lparr>servers = JArr [JObj []], page = 1, params = [], start_index = 15, children = []\<rparr>
      = (v', sent, out)"
    by (rule prod_cases3)
  from forward_empty_refetch_turns_page [OF _ _ cb, of "[[(''page'', JNum 2)]]"] f cb
  show ?thesis by simp
qed

text \<open>
  The claim as written fails on the view at page 1, offset 15, when page 2 comes back
  empty: the stored pair is not the one before the navigation.
\<close>

theorem forward_empty_refetch_counterexample:
  "snd (fetch_servers (net_serving []) 2 []) = Inr (JArr [])
   \<and> \<not> (page (fst (PageButton_callback lower_ascii (net_serving []) (direction Forward)
            \<lparr>servers = JArr [JObj []], page = 1, params = [], start_index = 15, children = []\<rparr>)) = 1
        \<and> start_index (fst (PageButton_callback lower_ascii (net_serving []) (direction Forward)
            \<lparr>servers = JArr [JObj []], page = 1, params = [], start_index = 15, children = []\<rparr>)) = 15)"
  by (simp add: PageButton_callback_def turn_page_def refetch_def update_buttons_def
        fetch_servers_def net_serving_def dict_set_def dict_get_def
        py_slice_def list_slice_def slice_bound_def Let_def)

section \<open>The paged fetch under failure\<close>

text \<open>
  C2. The claim asks \<^verbatim>\<open>fetch_servers\<close> for the empty list on every transport error
  and every undecodable body. The code has no handler around the request: with a
  network that raises, and with one whose body is not JSON, the call for page 1 with no
  filters sends its query and raises.
\<close>

theorem fetch_servers_raises:
  "fetch_servers net_down 1 [] = ([[(''page'', JNum 1)]], Inl RequestException)
   \<and> fetch_servers net_garbled 1 [] = ([[(''page'', JNum 1)]], Inl JSONDecodeError)"
  by (simp add: fetch_servers_def net_down_def net_garbled_def dict_set_def)

section \<open>Backward across the start of the page\<close>

text \<open>
  C3, as the code has it. From offset 0 on a page \<open>p > 1\<close>, when the Backward
  navigation fetches page \<open>p - 1\<close> and the fetch returns a list, the view is left on
  page \<open>p - 1\<close> at offset 15 with that list loaded, whatever its length: the offset
  is not clamped, and for a list of fewer than 16 items the embed shown has no field.
\<close>

theorem backward_refetch_offset_15:
  assumes "start_index v = 0" and "1 < page v"
    and "fetch_servers net (page v - 1) (params v) = (sent0, Inr (JArr xs))"
    and "PageButton_callback ulower net (direction Backward) v = (v', sent, out)"
  shows "page v' = page v - 1 \<and> start_index v' = 15 \<and> servers v' = JArr xs
       \<and> sent = [params v @ [(''page'', JNum (page v - 1))]]
       \<and> (length xs < 16 \<longrightarrow>
            out = Inr \<lparr>title = [Lit ''Server Search Results - Page '', Fmt (JNum (page v - 1))],
                      embed_fields = []\<rparr>)"
proof -
  from assms(4) have cb: "PageButton_callback ulower net (- 1) v = (v', sent, out)" by simp
  from assms(1,2) have b: "start_index v < 5" "- 15 \<le> start_index v" "page v \<noteq> 1" by simp_all
  note st = callback_backward_cross[OF cb b] callback_backward_cross_fetched[OF cb b assms(3)]
  have "out = Inr \<lparr>title = [Lit ''Server Search Results - Page '', Fmt (JNum (page v - 1))],
                     embed_fields = []\<rparr>" if "length xs < 16"
  proof -
    from that have "list_slice xs 15 20 = []" by (simp add: slice_past_end)
    with cb assms(1,3) b(3) show ?thesis
      by (simp add: PageButton_callback_def turn_page_def refetch_def update_buttons_def
          page_embed_def py_slice_def Let_def)
  qed
  with st show ?thesis by simp
qed

theorem backward_refetch_offset_15_witness:
  "start_index \<lparr>servers = JArr [], page = 2, params = [], start_index = 0, children = []\<rparr> = 0
   \<and> fetch_servers (net_serving [JObj [], JObj [], JObj []]) 1 []
       = ([[(''page'', JNum 1)]], Inr (JArr [JObj [], JObj [], JObj []]))
   \<and> page (fst (PageButton_callback lower_ascii (net_serving [JObj [], JObj [], JObj []]) (direction Backward)
        \<lparr>servers = JArr [], page = 2, params = [], start_index = 0, children = []\<rparr>)) = 1
   \<and> start_index (fst (PageButton_callback lower_ascii (net_serving [JObj [], JObj [], JObj []]) (direction Backward)
        \<lparr>servers = JArr [], page = 2, params = [], start_index = 0, children = []\<rparr>)) = 15
   \<and> snd (snd (PageButton_callback lower_ascii (net_serving [JObj [], JObj [], JObj []]) (direction Backward)
        \<lparr>servers = JArr [], page = 2, params = [], start_index = 0, children = []\<rparr>))
       = Inr \<lparr>title = [Lit ''Server Search Results - Page '', Fmt (JNum 1)], embed_fields = []\<rparr>"
proof -
  have f: "fetch_servers (net_serving [JObj [], JObj [], JObj []]) 1 []
       = ([[(''page'', JNum 1)]], Inr (JArr [JObj [], JObj [], JObj []]))"
    by (simp add: fetch_servers_def net_serving_def dict_set_def dict_get_def)
  obtain v' sent out where cb:
    "PageButton_callback lower_ascii (net_serving [JObj [], JObj [], JObj []]) (direction Backward)
        \<lparr>servers = JArr [], page = 2, params = [], start_index = 0, children = []\<rparr>
      = (v', sent, out)"
    by (rule prod_cases3)
  from backward_refetch_offset_15
         [OF _ _ _ cb, of "[[(''page'', JNum 1)]]" "[JObj [], JObj [], JObj []]"] f cb
  show ?thesis by simp
qed

text \<open>
  The claim as written fails on the view at page 2, offset 0, when page 1 comes back
  with three items: the claim's clamp gives 0, the stored offset is 15.
\<close>

theorem backward_clamp_counterexample:
  "snd (fetch_servers (net_serving [JObj [], JObj [], JObj []]) 1 [])
     = Inr (JArr [JObj [], JObj [], JObj []])
   \<and> start_index (fst (PageButton_callback lower_ascii (net_serving [JObj [], JObj [], JObj []]) (direction Backward)
        \<lparr>servers = JArr [], page = 2, params = [], start_index = 0, children = []\<rparr>))
       \<noteq> max 0 ((int (length [JObj [], JObj [], JObj []]) - 1) div 5 * 5)"
  by (simp add: PageButton_callback_def turn_page_def refetch_def update_buttons_def
        fetch_servers_def net_serving_def dict_set_def dict_get_def
        py_slice_def list_slice_def slice_bound_def Let_def)

section \<open>The offset stays on the grid\<close>

text \<open>
  C4. From a view whose offset is a multiple of 5 between 0 and 15, after each event of
  any sequence of Forward and Backward events, whatever the network answers (errors
  included), the stored offset is a multiple of 5, not negative and below 20.
\<close>

theorem offset_invariant:
  assumes "5 dvd start_index v" and "0 \<le> start_index v" and "start_index v \<le> 15"
  shows "5 dvd start_index (fst (run ulower v (take k evs)))
       \<and> 0 \<le> start_index (fst (run ulower v (take k evs)))
       \<and> start_index (fst (run ulower v (take k evs))) < 20"
proof -
  from assms have "start_index v \<in> {0, 5, 10, 15}" by auto
  from run_start_index[OF this, where ulower = ulower and evs = "take k evs"] show ?thesis by auto
qed

theorem offset_invariant_witness:
  "5 dvd start_index \<lparr>servers = JArr [], page = 3, params = [], start_index = 10, children = []\<rparr>
   \<and> 5 dvd start_index (fst (run lower_ascii \<lparr>servers = JArr [], page = 3, params = [], start_index = 10, children = []\<rparr>
        (take 3 [(Forward, net_down), (Forward, net_down), (Backward, net_garbled), (Forward, net_serving [])])))
   \<and> start_index (fst (run lower_ascii \<lparr>servers = JArr [], page = 3, params = [], start_index = 10, children = []\<rparr>
        (take 3 [(Forward, net_down), (Forward, net_down), (Backward, net_garbled), (Forward, net_serving [])]))) < 20"
  using offset_invariant
      [where v = "\<lparr>servers = JArr [], page = 3, params = [], start_index = 10, children = []\<rparr>"
         and ulower = lower_ascii and k = 3
         and evs = "[(Forward, net_down), (Forward, net_down), (Backward, net_garbled),
                     (Forward, net_serving [])]"]
  by simp

section \<open>Selecting one server\<close>

text \<open>
  C5, as the code has it. On an entry that is a dict whose \<open>lastSeen\<close> is absent,
  falsy or a string the timestamp parser accepts, whose \<open>geolocation\<close> is absent or
  a dict with \<open>country\<close> absent or a string, and whose \<open>authmode\<close> is absent,
  falsy or a string, \<^verbatim>\<open>ServerButton.callback\<close> raises nothing, and every absent
  field shows its default: \<open>Unknown\<close> for the version, the country, the city, the
  last-seen time and the authentication, \<open>None\<close> for the IP and 0 for the player
  counts.
\<close>

theorem ServerButton_missing_fields:
  assumes ls: "\<not> truthy (dict_get d ''lastSeen'' JNull)
             \<or> (\<exists>s ts. dict_get d ''lastSeen'' JNull = JStr s \<and> iso_timestamp (replace_Z s) = Some ts)"
    and geo: "dict_get d ''geolocation'' (JObj []) = JObj g"
    and country: "dict_get g ''country'' (JStr ''Unknown'') = JStr c"
    and auth: "\<not> truthy (dict_get d ''authmode'' JNull) \<or> (\<exists>s. dict_get d ''authmode'' JNull = JStr s)"
  shows "\<exists>e. ServerButton_callback ulower iso_timestamp (JObj d) = Inr e
     \<and> (''serverip'' \<notin> fst ` set d \<longrightarrow> field_value e ''IP'' = Some [Fmt JNull])
     \<and> (''version'' \<notin> fst ` set d \<longrightarrow> field_value e ''Version'' = Some [Fmt (JStr ''Unknown'')])
     \<and> (''country'' \<notin> fst ` set g \<and> ''countryName'' \<notin> fst ` set g \<longrightarrow>
          field_value e ''Country''
            = Some [Lit '':flag_'', Fmt (JStr ''unknown''), Lit '': '', Fmt (JStr ''Unknown'')])
     \<and> (''city'' \<notin> fst ` set g \<longrightarrow> field_value e ''City'' = Some [Fmt (JStr ''Unknown'')])
     \<and> (\<not> truthy (dict_get d ''lastSeen'' JNull) \<longrightarrow>
          field_value e ''Last Seen'' = Some [Lit ''Unknown''])
     \<and> (\<not> truthy (dict_get d ''authmode'' JNull) \<longrightarrow>
          field_value e ''Authentication''
            = Some [Fmt (JStr '':question:''), Lit '' '', Fmt (JStr ''Unknown'')])
     \<and> (''onlinePlayers'' \<notin> fst ` set d \<longrightarrow> field_value e ''Online Players'' = Some [Fmt (JNum 0)])
     \<and> (''maxPlayers'' \<notin> fst ` set d \<longrightarrow> field_value e ''Max Players'' = Some [Fmt (JNum 0)])"
proof -
  from last_seen_display_ok[OF ls] obtain t where
    t: "last_seen_display iso_timestamp (dict_get d ''lastSeen'' JNull) = Inr t"
       "\<not> truthy (dict_get d ''lastSeen'' JNull) \<longrightarrow> t = [Lit ''Unknown'']" by blast
  from map_authmode_ok[OF auth] obtain a where
    a: "map_authmode ulower (dict_get d ''authmode'' JNull) = Inr a"
       "\<not> truthy (dict_get d ''authmode'' JNull) \<longrightarrow> a = auth_default" by blast
  note c = country_text_ok[OF country]
  have e: "ServerButton_callback ulower iso_timestamp (JObj d) =
      Inr \<lparr>title = [Lit ''Server Information''],
           embed_fields =
             [([Lit ''IP''], [Fmt (dict_get d ''serverip'' JNull)], False),
              ([Lit ''Version''], [Fmt (dict_get d ''version'' (JStr ''Unknown''))], True),
              ([Lit ''Country''], [Lit '':flag_'', Fmt (JStr (lower ulower c)), Lit '': '',
                               Fmt (dict_get g ''countryName'' (JStr ''Unknown''))], True),
              ([Lit ''City''], [Fmt (dict_get g ''city'' (JStr ''Unknown''))], True),
              ([Lit ''Last Seen''], t, True),
              ([Lit ''Authentication''], [Fmt (JStr (icon a)), Lit '' '', Fmt (JStr (label a))], True),
              ([Lit ''Online Players''], [Fmt (dict_get d ''onlinePlayers'' (JNum 0))], True),
              ([Lit ''Max Players''], [Fmt (dict_get d ''maxPlayers'' (JNum 0))], True)]\<rparr>"
    by (simp add: ServerButton_callback_def as_dict_def t(1) a(1) c geo Let_def)
  have cu: "lower ulower c = ''unknown''" if "''country'' \<notin> fst ` set g"
    using country dict_get_absent[OF that, of "JStr ''Unknown''"] lower_Unknown by simp
  show ?thesis
    unfolding e using t(2) a(2) cu
    by (simp add: field_value_def dict_get_absent auth_default_def)
qed

theorem ServerButton_missing_fields_witness:
  "\<not> truthy (dict_get [] ''lastSeen'' JNull)
   \<and> dict_get [] ''geolocation'' (JObj []) = JObj []
   \<and> dict_get [] ''country'' (JStr ''Unknown'') = JStr ''Unknown''
   \<and> \<not> truthy (dict_get [] ''authmode'' JNull)
   \<and> ServerButton_callback lower_ascii iso_epoch (JObj []) =
     Inr \<lparr>title = [Lit ''Server Information''],
          embed_fields =
            [([Lit ''IP''], [Fmt JNull], False),
             ([Lit ''Version''], [Fmt (JStr ''Unknown'')], True),
             ([Lit ''Country''],
              [Lit '':flag_'', Fmt (JStr ''unknown''), Lit '': '', Fmt (JStr ''Unknown'')], True),
             ([Lit ''City''], [Fmt (JStr ''Unknown'')], True),
             ([Lit ''Last Seen''], [Lit ''Unknown''], True),
             ([Lit ''Authentication''],
              [Fmt (JStr '':question:''), Lit '' '', Fmt (JStr ''Unknown'')], True),
             ([Lit ''Online Players''], [Fmt (JNum 0)], True),
             ([Lit ''Max Players''], [Fmt (JNum 0)], True)]\<rparr>"
  using ServerButton_missing_fields
      [where d = "[]" and iso_timestamp = iso_epoch and g = "[]" and c = "''Unknown''"
         and ulower = lower_ascii]
  by (auto simp: dict_get_def ServerButton_callback_def as_dict_def last_seen_display_def
      country_text_def str_lower_def lower_Unknown map_authmode_def auth_map_def auth_default_def
      lower_def field_value_def)

text \<open>
  The claim as written fails on an entry whose \<open>lastSeen\<close> is a number: the
  callback raises.
\<close>

theorem ServerButton_malformed_counterexample:
  "ServerButton_callback lower_ascii iso_epoch
     (JObj [(''serverip'', JStr ''203.0.113.7''), (''lastSeen'', JNum 1700000000)])
   = Inl AttributeError"
  by (simp add: ServerButton_callback_def as_dict_def dict_get_def last_seen_display_def)

section \<open>Four steps forward\<close>

text \<open>
  C6. From offset 0 on page \<open>p\<close>, with filters that have no key \<open>page\<close>, three
  Forward navigations lead to offsets 5, 10 and 15 on page \<open>p\<close> and send no query;
  the fourth sends exactly one query, for page \<open>p + 1\<close>, and leaves the view on page
  \<open>p + 1\<close> at offset 0, with the fetched list loaded when the fetch returns one.
\<close>

theorem four_forwards:
  assumes "start_index v0 = 0" and "''page'' \<notin> fst ` set (params v0)"
    and "PageButton_callback ulower net1 (direction Forward) v0 = (v1, sent1, out1)"
    and "PageButton_callback ulower net2 (direction Forward) v1 = (v2, sent2, out2)"
    and "PageButton_callback ulower net3 (direction Forward) v2 = (v3, sent3, out3)"
    and "PageButton_callback ulower net4 (direction Forward) v3 = (v4, sent4, out4)"
  shows "(page v1, start_index v1) = (page v0, 5) \<and> sent1 = []
       \<and> (page v2, start_index v2) = (page v0, 10) \<and> sent2 = []
       \<and> (page v3, start_index v3) = (page v0, 15) \<and> sent3 = []
       \<and> servers v3 = servers v0
       \<and> sent4 = [params v0 @ [(''page'', JNum (page v0 + 1))]]
       \<and> (page v4, start_index v4) = (page v0 + 1, 0)
       \<and> (\<forall>xs. snd (fetch_servers net4 (page v0 + 1) (params v0)) = Inr (JArr xs)
                \<longrightarrow> servers v4 = JArr xs)"
proof -
  from assms(3-6) have cb:
    "PageButton_callback ulower net1 1 v0 = (v1, sent1, out1)"
    "PageButton_callback ulower net2 1 v1 = (v2, sent2, out2)"
    "PageButton_callback ulower net3 1 v2 = (v3, sent3, out3)"
    "PageButton_callback ulower net4 1 v3 = (v4, sent4, out4)" by simp_all
  from callback_forward_inside[OF cb(1)] assms(1)
  have s1: "start_index v1 = 5" "page v1 = page v0" "servers v1 = servers v0" "sent1 = []"
    by simp_all
  from callback_forward_inside[OF cb(2)] s1
  have s2: "start_index v2 = 10" "page v2 = page v0" "servers v2 = servers v0" "sent2 = []"
    by simp_all
  from callback_forward_inside[OF cb(3)] s2
  have s3: "start_index v3 = 15" "page v3 = page v0" "servers v3 = servers v0" "sent3 = []"
    by simp_all
  have p: "params v3 = params v0"
    using callback_params[OF cb(1)] callback_params[OF cb(2)] callback_params[OF cb(3)] by simp
  from callback_forward_cross[OF cb(4)] s3
  have s4: "start_index v4 = 0" "page v4 = page v0 + 1" by simp_all
  obtain sent0 r where f: "fetch_servers net4 (page v0 + 1) (params v0) = (sent0, r)"
    by (cases "fetch_servers net4 (page v0 + 1) (params v0)")
  from fetch_servers_sent[OF f] assms(2)
  have sent0: "sent0 = [params v0 @ [(''page'', JNum (page v0 + 1))]]" by simp
  have sent4: "sent4 = sent0"
    using cb(4) s3 p f
    by (auto simp: turn_page_def refetch_def Let_def split: sum.splits dest!: callback_frame)
  have fetched: "servers v4 = JArr xs" if "r = Inr (JArr xs)" for xs
    using callback_forward_cross_fetched[OF cb(4), of sent0 "JArr xs"] s3 p f that by simp
  from s1 s2 s3 s4 sent0 sent4 fetched f show ?thesis by simp
qed

theorem four_forwards_witness:
  "start_index \<lparr>servers = JArr (replicate 20 (JObj [])), page = 1,
                params = [(''version'', JStr ''1.20.1'')], start_index = 0, children = []\<rparr> = 0
   \<and> ''page'' \<notin> fst ` set [(''version'', JStr ''1.20.1'')]
   \<and> snd (run lower_ascii \<lparr>servers = JArr (replicate 20 (JObj [])), page = 1,
                params = [(''version'', JStr ''1.20.1'')], start_index = 0, children = []\<rparr>
        [(Forward, net_down), (Forward, net_down), (Forward, net_down)]) = []
   \<and> start_index (fst (run lower_ascii \<lparr>servers = JArr (replicate 20 (JObj [])), page = 1,
                params = [(''version'', JStr ''1.20.1'')], start_index = 0, children = []\<rparr>
        [(Forward, net_down), (Forward, net_down), (Forward, net_down)])) = 15
   \<and> snd (run lower_ascii \<lparr>servers = JArr (replicate 20 (JObj [])), page = 1,
                params = [(''version'', JStr ''1.20.1'')], start_index = 0, children = []\<rparr>
        [(Forward, net_down), (Forward, net_down), (Forward, net_down),
         (Forward, net_serving [JObj []])])
       = [[(''version'', JStr ''1.20.1''), (''page'', JNum 2)]]
   \<and> page (fst (run lower_ascii \<lparr>servers = JArr (replicate 20 (JObj [])), page = 1,
                params = [(''version'', JStr ''1.20.1'')], start_index = 0, children = []\<rparr>
        [(Forward, net_down), (Forward, net_down), (Forward, net_down),
         (Forward, net_serving [JObj []])])) = 2
   \<and> start_index (fst (run lower_ascii \<lparr>servers = JArr (replicate 20 (JObj [])), page = 1,
                params = [(''version'', JStr ''1.20.1'')], start_index = 0, children = []\<rparr>
        [(Forward, net_down), (Forward, net_down), (Forward, net_down),
         (Forward, net_serving [JObj []])])) = 0"
proof -
  obtain v1 s1 o1 where cb1: "PageButton_callback lower_ascii net_down (direction Forward)
      \<lparr>servers = JArr (replicate 20 (JObj [])), page = 1,
       params = [(''version'', JStr ''1.20.1'')], start_index = 0, children = []\<rparr> = (v1, s1, o1)"
    by (rule prod_cases3)
  obtain v2 s2 o2 where cb2: "PageButton_callback lower_ascii net_down (direction Forward) v1 = (v2, s2, o2)"
    by (rule prod_cases3)
  obtain v3 s3 o3 where cb3: "PageButton_callback lower_ascii net_down (direction Forward) v2 = (v3, s3, o3)"
    by (rule prod_cases3)
  obtain v4 s4 o4 where
    cb4: "PageButton_callback lower_ascii (net_serving [JObj []]) (direction Forward) v3 = (v4, s4, o4)"
    by (rule prod_cases3)
  from four_forwards [OF _ _ cb1 cb2 cb3 cb4] cb1 cb2 cb3 cb4
  show ?thesis by simp
qed

section \<open>Forward, then Backward\<close>

text \<open>
  C7. On a page \<open>p \<ge> 1\<close> at an offset among 0, 5, 10 and 15, a Forward navigation
  followed by a Backward navigation leaves the view on page \<open>p\<close> at the same offset,
  whatever the two fetches at the boundary return.
\<close>

theorem forward_backward_roundtrip:
  assumes "1 \<le> page v" and "start_index v \<in> {0, 5, 10, 15}"
    and "PageButton_callback ulower net1 (direction Forward) v = (v1, sent1, out1)"
    and "PageButton_callback ulower net2 (direction Backward) v1 = (v2, sent2, out2)"
  shows "page v2 = page v \<and> start_index v2 = start_index v"
proof (cases "start_index v = 15")
  case True
  from assms(3) have cb1: "PageButton_callback ulower net1 1 v = (v1, sent1, out1)" by simp
  from assms(4) have cb2: "PageButton_callback ulower net2 (- 1) v1 = (v2, sent2, out2)" by simp
  from callback_forward_cross[OF cb1] True
  have s1: "start_index v1 = 0" "page v1 = page v + 1" by simp_all
  with assms(1) have "page v1 \<noteq> 1" by simp
  from callback_backward_cross[OF cb2 _ _ this] s1 True show ?thesis by simp
next
  case False
  from assms(3) have cb1: "PageButton_callback ulower net1 1 v = (v1, sent1, out1)" by simp
  from assms(4) have cb2: "PageButton_callback ulower net2 (- 1) v1 = (v2, sent2, out2)" by simp
  from False assms(2) have inside: "0 \<le> start_index v" "start_index v < 15" by auto
  from callback_forward_inside[OF cb1 inside]
  have s1: "start_index v1 = start_index v + 5" "page v1 = page v" by simp_all
  from callback_backward_inside[OF cb2] s1 inside
  show ?thesis by simp
qed

theorem forward_backward_roundtrip_witness:
  "1 \<le> page \<lparr>servers = JArr [], page = 1, params = [], start_index = 15, children = []\<rparr>
   \<and> page (fst (run lower_ascii \<lparr>servers = JArr [], page = 1, params = [], start_index = 15, children = []\<rparr>
        [(Forward, net_serving [JObj []]), (Backward, net_serving [])])) = 1
   \<and> start_index (fst (run lower_ascii \<lparr>servers = JArr [], page = 1, params = [], start_index = 15, children = []\<rparr>
        [(Forward, net_serving [JObj []]), (Backward, net_serving [])])) = 15"
proof -
  obtain v1 s1 o1 where cb1: "PageButton_callback lower_ascii (net_serving [JObj []]) (direction Forward)
      \<lparr>servers = JArr [], page = 1, params = [], start_index = 15, children = []\<rparr> = (v1, s1, o1)"
    by (rule prod_cases3)
  obtain v2 s2 o2 where
    cb2: "PageButton_callback lower_ascii (net_serving []) (direction Backward) v1 = (v2, s2, o2)"
    by (rule prod_cases3)
  from forward_backward_roundtrip [OF _ _ cb1 cb2] cb1 cb2
  show ?thesis by simp
qed

section \<open>Backward at the very start\<close>

text \<open>
  C8. On page 1 at offset 0 a Backward navigation sends no query and leaves the page
  number, the offset, the loaded page and the filters as they were; a view whose
  buttons are those \<^verbatim>\<open>update_buttons\<close> gives it is left unchanged as a whole.
\<close>

theorem backward_at_first_page_noop:
  assumes "page v = 1" and "start_index v = 0"
    and "PageButton_callback ulower net (direction Backward) v = (v', sent, out)"
  shows "page v' = 1 \<and> start_index v' = 0 \<and> servers v' = servers v \<and> params v' = params v
       \<and> sent = [] \<and> (update_buttons v = (v, None) \<longrightarrow> v' = v)"
proof -
  from assms(3) have cb: "PageButton_callback ulower net (- 1) v = (v', sent, out)" by simp
  from assms(2) have lt: "start_index v < 5" by simp
  note st = callback_backward_start[OF cb lt assms(1)]
  have t: "turn_page net (- 1) v = (v, [], None)"
    using assms(1,2) by (simp add: turn_page_def Let_def)
  have "v' = v" if "update_buttons v = (v, None)"
    using cb t that by (simp add: PageButton_callback_def)
  with st show ?thesis by simp
qed

theorem backward_at_first_page_noop_witness:
  "update_buttons \<lparr>servers = JArr [JObj []], page = 1, params = [], start_index = 0,
        children = [ServerButton [Lit ''Server '', Fmt (JNum 1)] (JObj []),
                    PageButton ''Previous'' (- 1), PageButton ''Next'' 1]\<rparr>
     = (\<lparr>servers = JArr [JObj []], page = 1, params = [], start_index = 0,
        children = [ServerButton [Lit ''Server '', Fmt (JNum 1)] (JObj []),
                    PageButton ''Previous'' (- 1), PageButton ''Next'' 1]\<rparr>, None)
   \<and> fst (PageButton_callback lower_ascii net_down (direction Backward)
       \<lparr>servers = JArr [JObj []], page = 1, params = [], start_index = 0,
        children = [ServerButton [Lit ''Server '', Fmt (JNum 1)] (JObj []),
                    PageButton ''Previous'' (- 1), PageButton ''Next'' 1]\<rparr>)
     = \<lparr>servers = JArr [JObj []], page = 1, params = [], start_index = 0,
        children = [ServerButton [Lit ''Server '', Fmt (JNum 1)] (JObj []),
                    PageButton ''Previous'' (- 1), PageButton ''Next'' 1]\<rparr>
   \<and> fst (snd (PageButton_callback lower_ascii net_down (direction Backward)
       \<lparr>servers = JArr [JObj []], page = 1, params = [], start_index = 0,
        children = [ServerButton [Lit ''Server '', Fmt (JNum 1)] (JObj []),
                    PageButton ''Previous'' (- 1), PageButton ''Next'' 1]\<rparr>)) = []"
proof -
  have u: "update_buttons \<lparr>servers = JArr [JObj []], page = 1, params = [], start_index = 0,
        children = [ServerButton [Lit ''Server '', Fmt (JNum 1)] (JObj []),
                    PageButton ''Previous'' (- 1), PageButton ''Next'' 1]\<rparr>
     = (\<lparr>servers = JArr [JObj []], page = 1, params = [], start_index = 0,
        children = [ServerButton [Lit ''Server '', Fmt (JNum 1)] (JObj []),
                    PageButton ''Previous'' (- 1), PageButton ''Next'' 1]\<rparr>, None)"
    by (simp add: update_buttons_def py_slice_def list_slice_def slice_bound_def
        enumerate_eq_zip Let_def)
  obtain v' sent out where cb: "PageButton_callback lower_ascii net_down (direction Backward)
       \<lparr>servers = JArr [JObj []], page = 1, params = [], start_index = 0,
        children = [ServerButton [Lit ''Server '', Fmt (JNum 1)] (JObj []),
                    PageButton ''Previous'' (- 1), PageButton ''Next'' 1]\<rparr> = (v', sent, out)"
    by (rule prod_cases3)
  from backward_at_first_page_noop [OF _ _ cb] u cb
  show ?thesis by simp
qed

section \<open>The filters\<close>

text \<open>
  C9. No sequence of navigation events changes the filters of the view, and every
  query sent is those filters followed by the entry \<open>page\<close>; for a single
  navigation, the page number in the query is the one the view is left with.
\<close>

theorem params_never_mutated:
  "params (fst (run ulower v evs)) = params v
   \<and> (\<forall>q \<in> set (snd (run ulower v evs)). \<exists>p. q = params v @ [(''page'', JNum p)])
   \<and> params (fst (PageButton_callback ulower net (direction d) v)) = params v
   \<and> (fst (snd (PageButton_callback ulower net (direction d) v)) = []
      \<or> fst (snd (PageButton_callback ulower net (direction d) v))
          = [params v @ [(''page'', JNum (page (fst (PageButton_callback ulower net (direction d) v))))]])"
proof -
  obtain v' sent where r: "run ulower v evs = (v', sent)" by (cases "run ulower v evs")
  obtain v1 s1 out where cb: "PageButton_callback ulower net (direction d) v = (v1, s1, out)"
    by (cases "PageButton_callback ulower net (direction d) v")
  from run_params[OF r] callback_params[OF cb] show ?thesis
    by (simp add: r cb)
qed

theorem params_never_mutated_witness:
  "params (fst (run lower_ascii \<lparr>servers = JArr [], page = 1, params = [(''software'', JStr ''Paper'')],
                     start_index = 15, children = []\<rparr>
                [(Forward, net_serving []), (Backward, net_down)]))
     = [(''software'', JStr ''Paper'')]
   \<and> [(''software'', JStr ''Paper''), (''page'', JNum 2)]
       \<in> set (snd (run lower_ascii \<lparr>servers = JArr [], page = 1, params = [(''software'', JStr ''Paper'')],
                          start_index = 15, children = []\<rparr>
                     [(Forward, net_serving []), (Backward, net_down)]))
   \<and> (\<exists>p. [(''software'', JStr ''Paper''), (''page'', JNum 2)]
            = [(''software'', JStr ''Paper'')] @ [(''page'', JNum p)])"
proof -
  have "[(''software'', JStr ''Paper''), (''page'', JNum 2)]
       \<in> set (snd (run lower_ascii \<lparr>servers = JArr [], page = 1, params = [(''software'', JStr ''Paper'')],
                          start_index = 15, children = []\<rparr>
                     [(Forward, net_serving []), (Backward, net_down)]))"
    by (simp add: PageButton_callback_def turn_page_def refetch_def update_buttons_def
        fetch_servers_def net_serving_def net_down_def dict_set_def dict_get_def
        py_slice_def list_slice_def slice_bound_def Let_def)
  with params_never_mutated
         [where v = "\<lparr>servers = JArr [], page = 1, params = [(''software'', JStr ''Paper'')],
                      start_index = 15, children = []\<rparr>"
            and ulower = lower_ascii
            and evs = "[(Forward, net_serving []), (Backward, net_down)]"]
  show ?thesis by auto
qed

section \<open>The authentication-mode mapping\<close>

text \<open>
  C10, as the code has it. \<^verbatim>\<open>map_authmode\<close> never raises on a string, on \<open>None\<close>
  or on any other falsy value, and on a string its result depends on the lowercased
  argument only: a string whose lowercasing is \<open>online\<close>, \<open>offline\<close> or
  \<open>whitelist\<close> gets that mode's icon and text, and every other string, the empty
  string, \<open>None\<close> and every other falsy value get the pair for Unknown.
\<close>

theorem map_authmode_strings_and_falsy:
  "map_authmode ulower (JStr s) =
     Inr (if lower ulower s = ''online''
            then \<lparr>icon = '':white_check_mark:'', label = ''Online Mode''\<rparr>
          else if lower ulower s = ''offline''
            then \<lparr>icon = '':x:'', label = ''Offline (Cracked)''\<rparr>
          else if lower ulower s = ''whitelist''
            then \<lparr>icon = '':lock:'', label = ''Whitelisted''\<rparr>
          else \<lparr>icon = '':question:'', label = ''Unknown''\<rparr>)
   \<and> map_authmode ulower (JStr []) = Inr \<lparr>icon = '':question:'', label = ''Unknown''\<rparr>
   \<and> map_authmode ulower JNull = Inr \<lparr>icon = '':question:'', label = ''Unknown''\<rparr>
   \<and> (\<not> truthy v \<longrightarrow>
        map_authmode ulower v = Inr \<lparr>icon = '':question:'', label = ''Unknown''\<rparr>)"
proof -
  have falsy: "map_authmode ulower x = Inr \<lparr>icon = '':question:'', label = ''Unknown''\<rparr>"
    if "\<not> truthy x" for x
    using that by (simp add: map_authmode_def auth_map_def auth_default_def lower_Nil)
  have str: "map_authmode ulower (JStr s) =
     Inr (if lower ulower s = ''online''
            then \<lparr>icon = '':white_check_mark:'', label = ''Online Mode''\<rparr>
          else if lower ulower s = ''offline''
            then \<lparr>icon = '':x:'', label = ''Offline (Cracked)''\<rparr>
          else if lower ulower s = ''whitelist''
            then \<lparr>icon = '':lock:'', label = ''Whitelisted''\<rparr>
          else \<lparr>icon = '':question:'', label = ''Unknown''\<rparr>)"
  proof (cases s)
    case Nil
    then show ?thesis by (simp add: falsy lower_Nil)
  next
    case (Cons x xs)
    then show ?thesis by (simp add: map_authmode_def auth_map_def auth_default_def)
  qed
  from str falsy[of "JStr []"] falsy[of JNull] falsy[of v] show ?thesis by simp
qed

theorem map_authmode_strings_and_falsy_witness:
  "map_authmode lower_ascii (JStr ''OnLine'')
     = Inr \<lparr>icon = '':white_check_mark:'', label = ''Online Mode''\<rparr>
   \<and> map_authmode lower_ascii (JStr ''premium'') = Inr \<lparr>icon = '':question:'', label = ''Unknown''\<rparr>
   \<and> \<not> truthy (JNum 0)
   \<and> map_authmode lower_ascii (JNum 0) = Inr \<lparr>icon = '':question:'', label = ''Unknown''\<rparr>"
  using map_authmode_strings_and_falsy [where ulower = lower_ascii and s = "''OnLine''" and v = "JNum 0"]
    map_authmode_strings_and_falsy [where ulower = lower_ascii and s = "''premium''" and v = "JNum 0"]
  by (simp add: lower_def lower_char_def is_ascii_def)

text \<open>
  The claim as written fails on a truthy argument that is not a string, such as the
  number 5 in the \<open>authmode\<close> field of an entry: the call raises.
\<close>

theorem map_authmode_counterexample:
  "map_authmode lower_ascii (JNum 5) = Inl AttributeError"
  by (simp add: map_authmode_def)

end
